theory Spec2Isabelle
  imports Main
begin

section \<open>Python values and built-ins used by the driver\<close>

text \<open>
  The driver (\<^verbatim>\<open>solidfire_driver.py\<close>, Python 2) exchanges JSON with the cluster.
  A JSON scalar that the driver converts with \<^verbatim>\<open>int()\<close> or \<^verbatim>\<open>unicode()\<close> is either a
  number or a string; both are kept, since the driver's behaviour differs between them.
\<close>

datatype pyval = PInt int | PStr string

type_synonym pydict = "(string \<times> pyval) list"

text \<open>
  Modelled from the spec: the request failure of the cluster client, the class
  \<^verbatim>\<open>SolidFireRequestException\<close> of the module \<^verbatim>\<open>sfapi\<close>, which is not among the
  sources. The specification gives it a code and a message; the driver reads only its
  \<^verbatim>\<open>msg\<close> attribute.
\<close>

record request_failure =
  code :: pyval
  msg :: string

datatype error =
    UnknownVolume string
  | AlreadyAttachedVolume string
  | UnattachedVolume string
  | VolumeException string
  | SolidFireRequestException request_failure
  | ValueError
  | KeyError
  | Exception string

text \<open>
  \<^verbatim>\<open>int(s)\<close> on a string: surrounding whitespace is dropped, one sign is allowed, the
  rest must be a non-empty run of decimal digits; anything else raises \<^verbatim>\<open>ValueError\<close>.
  Only ASCII text is modelled.
\<close>

definition is_space :: "char \<Rightarrow> bool" where
  "is_space c = (c \<in> set [CHR '' '', CHR 0x09, CHR 0x0A, CHR 0x0B, CHR 0x0C, CHR 0x0D])"

definition py_strip :: "string \<Rightarrow> string" where
  "py_strip s = rev (dropWhile is_space (rev (dropWhile is_space s)))"

definition digit_val :: "char \<Rightarrow> int option" where
  "digit_val c = map_of (zip ''0123456789'' [0, 1, 2, 3, 4, 5, 6, 7, 8, 9]) c"

primrec digits_val :: "string \<Rightarrow> int \<Rightarrow> int option" where
  "digits_val [] acc = Some acc"
| "digits_val (c # cs) acc =
     (case digit_val c of None \<Rightarrow> None | Some k \<Rightarrow> digits_val cs (10 * acc + k))"

definition py_int_str :: "string \<Rightarrow> error + int" where
  "py_int_str s =
     (let t = py_strip s;
          neg = (t \<noteq> [] \<and> hd t = CHR ''-'');
          ds = (if t \<noteq> [] \<and> (hd t = CHR ''-'' \<or> hd t = CHR ''+'') then tl t else t)
      in if ds = [] then Inl ValueError
         else (case digits_val ds 0 of
                 None \<Rightarrow> Inl ValueError
               | Some n \<Rightarrow> Inr (if neg then - n else n)))"

fun py_int :: "pyval \<Rightarrow> error + int" where
  "py_int (PInt n) = Inr n"
| "py_int (PStr s) = py_int_str s"

text \<open>\<^verbatim>\<open>unicode(v)\<close>: a string is itself, a number is written in decimal.\<close>

fun nat_digits :: "nat \<Rightarrow> string" where
  "nat_digits n =
     (if n < 10 then [''0123456789'' ! n]
      else nat_digits (n div 10) @ [''0123456789'' ! (n mod 10)])"

declare nat_digits.simps [simp del]

fun py_unicode :: "pyval \<Rightarrow> string" where
  "py_unicode (PStr s) = s"
| "py_unicode (PInt n) = (if n < 0 then CHR ''-'' # nat_digits (nat (- n)) else nat_digits (nat n))"

text \<open>
  \<^verbatim>\<open>u == v\<close> for a unicode string \<open>u\<close> and a JSON scalar \<open>v\<close>: a string never equals
  a number in Python.
\<close>

fun py_eq_unicode :: "string \<Rightarrow> pyval \<Rightarrow> bool" where
  "py_eq_unicode u (PStr t) = (u = t)"
| "py_eq_unicode u (PInt n) = False"

text \<open>\<^verbatim>\<open>sub in s\<close> on strings, and \<^verbatim>\<open>s.replace(old, new)\<close> for a non-empty \<open>old\<close>.\<close>

primrec py_in :: "string \<Rightarrow> string \<Rightarrow> bool" where
  "py_in sub [] = (sub = [])"
| "py_in sub (c # cs) = (take (length sub) (c # cs) = sub \<or> py_in sub cs)"

function py_replace :: "string \<Rightarrow> string \<Rightarrow> string \<Rightarrow> string" where
  "py_replace old new [] = []"
| "py_replace old new (c # cs) =
     (if old \<noteq> [] \<and> take (length old) (c # cs) = old
      then new @ py_replace old new (drop (length old) (c # cs))
      else c # py_replace old new cs)"
  by pat_completeness auto
termination
  by (relation "measure (\<lambda>(old, new, s). length s)") auto

text \<open>\<^verbatim>\<open>s.strip(chars)\<close>.\<close>

definition py_strip_chars :: "string \<Rightarrow> string \<Rightarrow> string" where
  "py_strip_chars chars s =
     rev (dropWhile (\<lambda>c. c \<in> set chars) (rev (dropWhile (\<lambda>c. c \<in> set chars) s)))"

text \<open>
  \<^verbatim>\<open>uuid.UUID(hex)\<close>: the prefixes \<^verbatim>\<open>urn:\<close> and \<^verbatim>\<open>uuid:\<close> are removed, braces are
  stripped from both ends, hyphens are removed; what is left must be 32 characters that
  read as a hexadecimal number, else \<^verbatim>\<open>ValueError\<close>. Two UUIDs are equal when their
  128-bit numbers are. The signs, blanks and \<^verbatim>\<open>0x\<close> that \<^verbatim>\<open>long(hex, 16)\<close> would
  accept inside the 32 characters are not modelled: such text is rejected here.
\<close>

datatype uuid = UUID nat

definition hex_val :: "char \<Rightarrow> nat option" where
  "hex_val c =
     map_of (zip ''0123456789abcdefABCDEF''
               [0, 1, 2, 3, 4, 5, 6, 7, 8, 9, 10, 11, 12, 13, 14, 15, 10, 11, 12, 13, 14, 15]) c"

primrec hexs_val :: "string \<Rightarrow> nat \<Rightarrow> nat option" where
  "hexs_val [] acc = Some acc"
| "hexs_val (c # cs) acc =
     (case hex_val c of None \<Rightarrow> None | Some k \<Rightarrow> hexs_val cs (16 * acc + k))"

definition py_uuid :: "string \<Rightarrow> error + uuid" where
  "py_uuid hex =
     (let h1 = py_replace ''uuid:'' [] (py_replace ''urn:'' [] hex);
          h2 = py_replace ''-'' [] (py_strip_chars ''{}'' h1)
      in if length h2 \<noteq> 32 then Inl ValueError
         else (case hexs_val h2 0 of None \<Rightarrow> Inl ValueError | Some n \<Rightarrow> Inr (UUID n)))"

section \<open>Data exchanged with the cluster and the host\<close>

text \<open>
  The fields the driver reads from a volume, an iSCSI session and a volume access group
  of the cluster's JSON answers. The JSON key \<^verbatim>\<open>name\<close> is \<open>vol_name\<close> on a volume and
  \<open>vag_name\<close> on an access group; \<^verbatim>\<open>volumeID\<close> of a session is \<open>session_volumeID\<close>.
\<close>

record sf_volume =
  volumeID :: pyval
  vol_name :: string
  iqn :: string
  totalSize :: int

record iscsi_session =
  session_volumeID :: pyval

record volume_access_group =
  vag_name :: string
  volumeAccessGroupID :: pyval
  initiators :: "string list"

text \<open>The parameter map of \<^verbatim>\<open>CreateVolume\<close>; \<open>qos\<close> is \<open>None\<close> when the key is absent.\<close>

record create_volume_params =
  cv_name :: string
  cv_accountID :: pyval
  cv_sliceCount :: int
  cv_totalSize :: int
  cv_enable512e :: bool
  cv_attributes :: pydict
  cv_qos :: "pydict option"

datatype request =
    ListVolumeAccessGroups
  | CreateVolumeAccessGroup string "string list"
  | AddInitiatorsToVolumeAccessGroup pyval "string list"
  | ListVolumesForAccount pyval
  | ListISCSISessions
  | CreateVolume create_volume_params
  | AddVolumesToVolumeAccessGroup pyval "int list"
  | DeleteVolume int
  | ModifyVolume pyval int

text \<open>An answer of the cluster, by the one key the driver reads from it.\<close>

datatype response =
    VolumeAccessGroups "volume_access_group list"
  | VolumeAccessGroupID pyval
  | Volumes "sf_volume list"
  | Sessions "iscsi_session list"
  | VolumeID pyval
  | NoFields

text \<open>
  Flocker's \<^verbatim>\<open>BlockDeviceVolume\<close>; its field \<^verbatim>\<open>size\<close> is \<open>size_bytes\<close> here.
\<close>

record block_device_volume =
  blockdevice_id :: string
  size_bytes :: int
  attached_to :: "string option"
  dataset_id :: uuid

text \<open>
  The collaborators the driver calls are parameters of the model, since the modules
  \<^verbatim>\<open>sfapi\<close> and \<^verbatim>\<open>utils\<close> are not among the sources: the cluster client
  (\<^verbatim>\<open>issue_request\<close>, with its optional API version), the iSCSI and path helpers of
  \<^verbatim>\<open>utils\<close>, \<^verbatim>\<open>FilePath.realpath\<close> and the host address that \<^verbatim>\<open>compute_instance_id\<close>
  reads from the socket library. Nothing is assumed about what they answer.
\<close>

record env =
  issue_request :: "request \<Rightarrow> string option \<Rightarrow> request_failure + response"
  path_exists :: "string \<Rightarrow> nat \<Rightarrow> bool"
  iscsi_discovery :: "string \<Rightarrow> string list"
  iscsi_login :: "string \<Rightarrow> string \<Rightarrow> bool"
  get_expected_disk_path :: "string \<Rightarrow> string \<Rightarrow> string"
  get_device_file_from_path :: "string \<Rightarrow> string"
  realpath :: "string \<Rightarrow> string"
  host_address :: string

text \<open>The attributes of the driver object that the operations read.\<close>

record driver =
  account_id :: pyval
  volume_prefix :: string
  svip :: string
  vag_id :: pyval
  profiles :: "(string \<times> pydict) list"

section \<open>Effects: an outcome and the calls made\<close>

text \<open>
  Every operation returns its outcome (an exception or a value) together with the calls
  it made to the cluster and to the iSCSI helpers, in order.
\<close>

datatype event =
    Request request "string option"
  | PathExists string nat
  | Discovery string
  | Login string string
  | Logout string string

type_synonym 'a io = "(error + 'a) \<times> event list"

definition io_return :: "'a \<Rightarrow> 'a io" where
  "io_return x = (Inr x, [])"

definition io_raise :: "error \<Rightarrow> 'a io" where
  "io_raise err = (Inl err, [])"

definition io_lift :: "error + 'a \<Rightarrow> 'a io" where
  "io_lift r = (r, [])"

definition io_bind :: "'a io \<Rightarrow> ('a \<Rightarrow> 'b io) \<Rightarrow> 'b io" where
  "io_bind m f =
     (case m of
        (Inl err, t) \<Rightarrow> (Inl err, t)
      | (Inr x, t) \<Rightarrow> (case f x of (r, t') \<Rightarrow> (r, t @ t')))"

definition client_issue_request :: "env \<Rightarrow> request \<Rightarrow> string option \<Rightarrow> response io" where
  "client_issue_request e r version =
     ((case issue_request e r version of
         Inl ex \<Rightarrow> Inl (SolidFireRequestException ex)
       | Inr resp \<Rightarrow> Inr resp),
      [Request r version])"

definition utils_path_exists :: "env \<Rightarrow> string \<Rightarrow> nat \<Rightarrow> bool io" where
  "utils_path_exists e path timeout = (Inr (path_exists e path timeout), [PathExists path timeout])"

definition utils_iscsi_discovery :: "env \<Rightarrow> string \<Rightarrow> string list io" where
  "utils_iscsi_discovery e portal = (Inr (iscsi_discovery e portal), [Discovery portal])"

definition utils_iscsi_login :: "env \<Rightarrow> string \<Rightarrow> string \<Rightarrow> bool io" where
  "utils_iscsi_login e portal target = (Inr (iscsi_login e portal target), [Login portal target])"

definition utils_iscsi_logout :: "env \<Rightarrow> string \<Rightarrow> string \<Rightarrow> unit io" where
  "utils_iscsi_logout e portal target = (Inr (), [Logout portal target])"

text \<open>Reading a key of an answer; a missing key raises \<^verbatim>\<open>KeyError\<close>.\<close>

fun get_volumeAccessGroups :: "response \<Rightarrow> error + volume_access_group list" where
  "get_volumeAccessGroups (VolumeAccessGroups vags) = Inr vags"
| "get_volumeAccessGroups _ = Inl KeyError"

fun get_volumeAccessGroupID :: "response \<Rightarrow> error + pyval" where
  "get_volumeAccessGroupID (VolumeAccessGroupID i) = Inr i"
| "get_volumeAccessGroupID _ = Inl KeyError"

fun get_volumes :: "response \<Rightarrow> error + sf_volume list" where
  "get_volumes (Volumes vs) = Inr vs"
| "get_volumes _ = Inl KeyError"

fun get_sessions :: "response \<Rightarrow> error + iscsi_session list" where
  "get_sessions (Sessions ss) = Inr ss"
| "get_sessions _ = Inl KeyError"

fun get_volumeID :: "response \<Rightarrow> error + pyval" where
  "get_volumeID (VolumeID i) = Inr i"
| "get_volumeID _ = Inl KeyError"

definition dict_item :: "pydict \<Rightarrow> string \<Rightarrow> error + pyval" where
  "dict_item dct k = (case map_of dct k of None \<Rightarrow> Inl KeyError | Some v \<Rightarrow> Inr v)"

section \<open>Backend bootstrap: the volume access group\<close>

text \<open>
  \<^verbatim>\<open>_initialize_vag\<close> (the leading underscore of the private methods is dropped). The
  first loop keeps the last group carrying the name; the second collects the local
  initiators that the group does not list.
\<close>

primrec vag_loop ::
  "string \<Rightarrow> volume_access_group list \<Rightarrow> volume_access_group option \<times> pyval option \<Rightarrow>
   volume_access_group option \<times> pyval option" where
  "vag_loop name [] acc = acc"
| "vag_loop name (v # vags) acc =
     vag_loop name vags
       (if vag_name v = name then (Some v, Some (volumeAccessGroupID v)) else acc)"

primrec missing_loop :: "string list \<Rightarrow> string list \<Rightarrow> string list \<Rightarrow> string list" where
  "missing_loop [] registered missing_iqns = missing_iqns"
| "missing_loop (i # iqns) registered missing_iqns =
     missing_loop iqns registered
       (if i \<notin> set registered then missing_iqns @ [i] else missing_iqns)"

definition initialize_vag :: "env \<Rightarrow> string \<Rightarrow> string list \<Rightarrow> pyval option io" where
  "initialize_vag e name iqns =
     io_bind (client_issue_request e ListVolumeAccessGroups (Some ''7.0'')) (\<lambda>resp.
     io_bind (io_lift (get_volumeAccessGroups resp)) (\<lambda>vags.
       case vag_loop name vags (None, None) of
         (None, vag_id0) \<Rightarrow>
           io_bind (client_issue_request e (CreateVolumeAccessGroup name iqns) (Some ''7.0''))
             (\<lambda>created.
           io_bind (io_lift (get_volumeAccessGroupID created)) (\<lambda>new_id.
             io_return (Some new_id)))
       | (Some vag, vag_id0) \<Rightarrow>
           (let missing_iqns = missing_loop iqns (initiators vag) []
            in if length missing_iqns \<ge> 1
               then io_bind
                      (client_issue_request e
                         (AddInitiatorsToVolumeAccessGroup (volumeAccessGroupID vag) missing_iqns)
                         (Some ''7.0''))
                      (\<lambda>added. io_return vag_id0)
               else io_return vag_id0)))"

section \<open>Profile registry\<close>

text \<open>
  \<^verbatim>\<open>_set_profiles\<close>: the argument is \<open>None\<close> when no profile text is configured (or
  the text is empty), else the registry that \<^verbatim>\<open>ast.literal_eval\<close> reads from the text.
\<close>

definition set_profiles :: "(string \<times> pydict) list option \<Rightarrow> (string \<times> pydict) list" where
  "set_profiles config_profiles =
     (let profiles0 =
        [(''Gold'', [(''minIOPS'', PInt 5000), (''maxIOPS'', PInt 8000), (''burstIOPS'', PInt 15000)]),
         (''Silver'', [(''minIOPS'', PInt 3000), (''maxIOPS'', PInt 5000), (''burstIOPS'', PInt 10000)]),
         (''Bronze'', [(''minIOPS'', PInt 1000), (''maxIOPS'', PInt 3000), (''burstIOPS'', PInt 5000)])]
      in case config_profiles of None \<Rightarrow> profiles0 | Some configured \<Rightarrow> configured)"

text \<open>
  \<^verbatim>\<open>_process_profile\<close>: \<open>None\<close> is Python's \<^verbatim>\<open>None\<close>. An empty record is falsy, so it
  is returned as it is; a record that lacks one of the three keys becomes \<open>None\<close>.
\<close>

definition process_profile :: "driver \<Rightarrow> string option \<Rightarrow> pydict option" where
  "process_profile d profile_name =
     (let profile = (case profile_name of None \<Rightarrow> None | Some n \<Rightarrow> map_of (profiles d) n)
      in case profile of
           None \<Rightarrow> None
         | Some p \<Rightarrow>
             if p = [] then Some p
             else if \<not> list_all (\<lambda>k. map_of p k \<noteq> None) [''minIOPS'', ''maxIOPS'', ''burstIOPS'']
                  then None
                  else Some p)"

section \<open>Looking a volume up, and the cluster's iSCSI sessions\<close>

text \<open>
  \<^verbatim>\<open>_get_solidfire_volume\<close>: both identifiers go through \<^verbatim>\<open>int()\<close>, the listed one
  first, at every volume the loop visits.
\<close>

fun volume_loop :: "sf_volume list \<Rightarrow> string \<Rightarrow> error + sf_volume option" where
  "volume_loop [] solidfire_id = Inr None"
| "volume_loop (v # volumes) solidfire_id =
     (case py_int (volumeID v) of
        Inl err \<Rightarrow> Inl err
      | Inr a \<Rightarrow>
          (case py_int (PStr solidfire_id) of
             Inl err \<Rightarrow> Inl err
           | Inr b \<Rightarrow> if a = b then Inr (Some v) else volume_loop volumes solidfire_id))"

definition get_solidfire_volume :: "env \<Rightarrow> driver \<Rightarrow> string \<Rightarrow> sf_volume option io" where
  "get_solidfire_volume e d solidfire_id =
     io_bind (client_issue_request e (ListVolumesForAccount (account_id d)) (Some ''7.0''))
       (\<lambda>resp.
     io_bind (io_lift (get_volumes resp)) (\<lambda>volumes.
       io_lift (volume_loop volumes solidfire_id)))"

text \<open>
  \<^verbatim>\<open>_current_iscsi_sessions\<close>: the identifier is compared with \<^verbatim>\<open>==\<close> as it is, with
  no conversion.
\<close>

primrec session_loop ::
  "iscsi_session list \<Rightarrow> string \<Rightarrow> iscsi_session list \<Rightarrow> iscsi_session list" where
  "session_loop [] sf_volid current_sessions = current_sessions"
| "session_loop (session # sessions) sf_volid current_sessions =
     session_loop sessions sf_volid
       (if py_eq_unicode sf_volid (session_volumeID session)
        then current_sessions @ [session] else current_sessions)"

definition current_iscsi_sessions :: "env \<Rightarrow> string \<Rightarrow> iscsi_session list io" where
  "current_iscsi_sessions e sf_volid =
     io_bind (client_issue_request e ListISCSISessions (Some ''7.0'')) (\<lambda>result.
     io_bind (io_lift (get_sessions result)) (\<lambda>sessions.
       io_return (session_loop sessions sf_volid [])))"

definition compute_instance_id :: "env \<Rightarrow> string" where
  "compute_instance_id e = host_address e"

definition device_path :: "string \<Rightarrow> string \<Rightarrow> string" where
  "device_path portal tgt_iqn =
     ''/dev/disk/by-path/ip-'' @ portal @ ''-iscsi-'' @ tgt_iqn @ ''-lun-0''"

section \<open>Volume lifecycle\<close>

text \<open>
  The parameter \<^verbatim>\<open>size\<close> of the source is \<open>size'\<close>, \<^verbatim>\<open>dataset_id\<close> is \<open>dataset\<close>
  and \<^verbatim>\<open>blockdevice_id\<close> is \<open>blockdevice\<close>, the plain names being record fields or
  constants. The dataset identifier is the text of the UUID: it is formatted into the
  volume name and given to \<^verbatim>\<open>uuid.UUID\<close>. Log messages are not part of the model.
\<close>

definition create_volume_with_profile ::
  "env \<Rightarrow> driver \<Rightarrow> string \<Rightarrow> int \<Rightarrow> string option \<Rightarrow> block_device_volume io" where
  "create_volume_with_profile e d dataset size' profile_name =
     (let vname = volume_prefix d @ dataset;
          profile = process_profile d profile_name;
          params = \<lparr>cv_name = vname, cv_accountID = account_id d, cv_sliceCount = 1,
                    cv_totalSize = size', cv_enable512e = True, cv_attributes = [],
                    cv_qos = None\<rparr>
      in io_bind
           (case profile of
              None \<Rightarrow> io_return params
            | Some p \<Rightarrow>
                if p = [] then io_return params
                else io_bind (io_lift (dict_item p ''minIOPS'')) (\<lambda>min_iops.
                     io_bind (io_lift (dict_item p ''maxIOPS'')) (\<lambda>max_iops.
                     io_bind (io_lift (dict_item p ''burstIOPS'')) (\<lambda>burst_iops.
                       io_return (params\<lparr>cv_qos :=
                         Some [(''minIOPS'', min_iops), (''maxIOPS'', max_iops),
                               (''burstIOPS'', burst_iops)]\<rparr>)))))
           (\<lambda>params.
         io_bind (client_issue_request e (CreateVolume params) None) (\<lambda>result.
         io_bind (io_lift (get_volumeID result)) (\<lambda>new_id.
         io_bind (io_lift (py_int new_id)) (\<lambda>new_int.
         io_bind
           (client_issue_request e (AddVolumesToVolumeAccessGroup (vag_id d) [new_int])
              (Some ''7.0''))
           (\<lambda>added.
         io_bind (io_lift (py_uuid dataset)) (\<lambda>u.
           io_return \<lparr>blockdevice_id = py_unicode new_id, size_bytes = size',
                      attached_to = None, dataset_id = u\<rparr>)))))))"

definition create_volume :: "env \<Rightarrow> driver \<Rightarrow> string \<Rightarrow> int \<Rightarrow> block_device_volume io" where
  "create_volume e d dataset size' = create_volume_with_profile e d dataset size' None"

text \<open>
  \<^verbatim>\<open>destroy_volume\<close>: the identifier is converted before the request; only a
  request failure is caught, and it is translated when its message names a missing
  volume.
\<close>

definition destroy_volume :: "env \<Rightarrow> driver \<Rightarrow> string \<Rightarrow> unit io" where
  "destroy_volume e d blockdevice =
     io_bind (io_lift (py_int (PStr blockdevice))) (\<lambda>vid.
       case client_issue_request e (DeleteVolume vid) None of
         (Inl (SolidFireRequestException ex), t) \<Rightarrow>
           (if py_in ''xVolumeIDDoesNotExist'' (msg ex)
            then (Inl (UnknownVolume blockdevice), t)
            else (Inl (SolidFireRequestException ex), t))
       | (Inl err, t) \<Rightarrow> (Inl err, t)
       | (Inr deleted, t) \<Rightarrow> (Inr (), t))"


definition attach_volume ::
  "env \<Rightarrow> driver \<Rightarrow> string \<Rightarrow> string \<Rightarrow> block_device_volume io" where
  "attach_volume e d blockdevice attach_to =
     io_bind (get_solidfire_volume e d blockdevice) (\<lambda>found.
       case found of
         None \<Rightarrow> io_raise (UnknownVolume blockdevice)
       | Some vol \<Rightarrow>
           (let tgt_iqn = iqn vol in
            io_bind (utils_path_exists e (device_path (svip d) tgt_iqn) 1) (\<lambda>present.
              if present then io_raise (AlreadyAttachedVolume blockdevice)
              else
            io_bind (current_iscsi_sessions e blockdevice) (\<lambda>current_sessions.
              if current_sessions \<noteq> [] then io_raise (AlreadyAttachedVolume blockdevice)
              else
            io_bind (utils_iscsi_discovery e (svip d)) (\<lambda>targets.
              if length targets < 1 \<and> tgt_iqn \<notin> set targets
              then io_raise (Exception ''No targes found during discovery.'')
              else
            io_bind (utils_iscsi_login e (svip d) tgt_iqn) (\<lambda>logged_in.
              if logged_in
              then io_bind (io_lift (py_uuid (vol_name vol))) (\<lambda>u.
                     io_return \<lparr>blockdevice_id = blockdevice, size_bytes = totalSize vol,
                                attached_to = Some attach_to, dataset_id = u\<rparr>)
              else io_raise
                     (Exception (''Failed iSCSI login to device: '' @ blockdevice))))))))"


definition resize_volume :: "env \<Rightarrow> driver \<Rightarrow> string \<Rightarrow> int \<Rightarrow> unit io" where
  "resize_volume e d blockdevice size' =
     io_bind (get_solidfire_volume e d blockdevice) (\<lambda>found.
       case found of
         None \<Rightarrow> io_raise (UnknownVolume blockdevice)
       | Some vol \<Rightarrow>
           if size' \<le> totalSize vol then io_raise (VolumeException blockdevice)
           else io_bind
                  (client_issue_request e (ModifyVolume (volumeID vol) size') (Some ''5.0''))
                  (\<lambda>modified. io_return ()))"

text \<open>
  \<^verbatim>\<open>list_volumes\<close>: the loop probes the device path of each volume, removes the text
  \<^verbatim>\<open>flock-\<close> from its name and reads the rest as a UUID; an exception at one volume
  ends the whole listing.
\<close>

fun list_volumes_loop ::
  "env \<Rightarrow> driver \<Rightarrow> sf_volume list \<Rightarrow> block_device_volume list \<Rightarrow>
   block_device_volume list io" where
  "list_volumes_loop e d [] volumes = io_return volumes"
| "list_volumes_loop e d (v # sfvols) volumes =
     (let tgt_iqn = iqn v;
          path = device_path (svip d) tgt_iqn;
          attached = (if path_exists e path 1 then Some (compute_instance_id e) else None);
          name = (if py_in ''flock-'' (vol_name v)
                  then py_replace ''flock-'' [] (vol_name v) else vol_name v)
      in case py_uuid name of
           Inl err \<Rightarrow> (Inl err, [PathExists path 1])
         | Inr u \<Rightarrow>
             (case list_volumes_loop e d sfvols
                     (volumes @ [\<lparr>blockdevice_id = py_unicode (volumeID v),
                                   size_bytes = totalSize v, attached_to = attached,
                                   dataset_id = u\<rparr>]) of
                (r, t) \<Rightarrow> (r, PathExists path 1 # t)))"

definition list_volumes :: "env \<Rightarrow> driver \<Rightarrow> block_device_volume list io" where
  "list_volumes e d =
     io_bind (client_issue_request e (ListVolumesForAccount (account_id d)) (Some ''7.0''))
       (\<lambda>resp.
     io_bind (io_lift (get_volumes resp)) (\<lambda>sfvols.
       list_volumes_loop e d sfvols []))"

section \<open>A sample cluster and host\<close>

text \<open>
  A cluster that answers every request, one that fails every request with a given
  message, a host on which no device path exists, and sample records; they are the
  concrete inputs at which the results below are evaluated.
\<close>

definition sample_cluster ::
  "volume_access_group list \<Rightarrow> sf_volume list \<Rightarrow> iscsi_session list \<Rightarrow>
   request \<Rightarrow> string option \<Rightarrow> request_failure + response" where
  "sample_cluster vags vols sessions r version =
     (case r of
        ListVolumeAccessGroups \<Rightarrow> Inr (VolumeAccessGroups vags)
      | CreateVolumeAccessGroup name iqns \<Rightarrow> Inr (VolumeAccessGroupID (PInt 4))
      | ListVolumesForAccount account \<Rightarrow> Inr (Volumes vols)
      | ListISCSISessions \<Rightarrow> Inr (Sessions sessions)
      | CreateVolume params \<Rightarrow> Inr (VolumeID (PInt 7))
      | _ \<Rightarrow> Inr NoFields)"

definition failing_cluster ::
  "string \<Rightarrow> request \<Rightarrow> string option \<Rightarrow> request_failure + response" where
  "failing_cluster message r version = Inl \<lparr>code = PInt 500, msg = message\<rparr>"

definition sample_env ::
  "(request \<Rightarrow> string option \<Rightarrow> request_failure + response) \<Rightarrow> string list \<Rightarrow> bool \<Rightarrow> env" where
  "sample_env client targets login_ok =
     \<lparr>issue_request = client,
      path_exists = (\<lambda>path timeout. False),
      iscsi_discovery = (\<lambda>portal. targets),
      iscsi_login = (\<lambda>portal target. login_ok),
      get_expected_disk_path = (\<lambda>portal target. device_path portal target),
      get_device_file_from_path = (\<lambda>path. path),
      realpath = (\<lambda>path. path),
      host_address = ''192.0.2.10''\<rparr>"

definition sample_driver :: "string \<Rightarrow> (string \<times> pydict) list \<Rightarrow> driver" where
  "sample_driver pre registry =
     \<lparr>account_id = PInt 1, volume_prefix = pre, svip = ''10.0.0.1:3260'', vag_id = PInt 3,
      profiles = registry\<rparr>"

definition sample_volume :: "pyval \<Rightarrow> string \<Rightarrow> sf_volume" where
  "sample_volume ident name =
     \<lparr>volumeID = ident, vol_name = name, iqn = ''iqn.2010-01.com.solidfire:v.5'',
      totalSize = 1073741824\<rparr>"

definition sample_group :: "string list \<Rightarrow> volume_access_group" where
  "sample_group registered =
     \<lparr>vag_name = ''tenant1'', volumeAccessGroupID = PInt 3, initiators = registered\<rparr>"

section \<open>Unfolding rules and facts about the loops\<close>

lemmas io_defs = io_return_def io_raise_def io_lift_def io_bind_def client_issue_request_def
  utils_path_exists_def utils_iscsi_discovery_def utils_iscsi_login_def utils_iscsi_logout_def

lemmas py_defs = py_int_str_def py_strip_def is_space_def digit_val_def py_uuid_def hex_val_def
  py_strip_chars_def dict_item_def

lemmas sample_defs = sample_cluster_def failing_cluster_def sample_env_def sample_driver_def
  sample_volume_def sample_group_def

lemma vag_loop_last:
  "vag_loop name vags acc =
     (if filter (\<lambda>v. vag_name v = name) vags = [] then acc
      else (Some (last (filter (\<lambda>v. vag_name v = name) vags)),
            Some (volumeAccessGroupID (last (filter (\<lambda>v. vag_name v = name) vags)))))"
  by (induction vags arbitrary: acc) auto

lemma missing_loop_filter:
  "missing_loop iqns registered acc = acc @ filter (\<lambda>i. i \<notin> set registered) iqns"
  by (induction iqns arbitrary: acc) auto





text \<open>
  What the two attach guards after the path probe do cover: a session whose
  \<^verbatim>\<open>volumeID\<close> is the very text of the identifier, and an empty discovery result. A
  session whose \<^verbatim>\<open>volumeID\<close> is a number is never collected.
\<close>

lemma session_loop_numeric:
  "\<forall>s \<in> set sessions. \<exists>n. session_volumeID s = PInt n \<Longrightarrow>
   session_loop sessions sf_volid acc = acc"
  by (induction sessions arbitrary: acc) auto

lemma session_loop_mono:
  "acc \<noteq> [] \<Longrightarrow> session_loop sessions sf_volid acc \<noteq> []"
  by (induction sessions arbitrary: acc) auto

lemma session_loop_same_text:
  "\<exists>s \<in> set sessions. session_volumeID s = PStr sf_volid \<Longrightarrow>
   session_loop sessions sf_volid acc \<noteq> []"
  by (induction sessions arbitrary: acc) (auto simp: session_loop_mono)

lemma attach_volume_same_text_session:
  assumes "get_solidfire_volume e d blockdevice = (Inr (Some vol), t)"
    and "\<not> path_exists e (device_path (svip d) (iqn vol)) 1"
    and "issue_request e ListISCSISessions (Some ''7.0'') = Inr (Sessions sessions)"
    and "\<exists>s \<in> set sessions. session_volumeID s = PStr blockdevice"
  shows "attach_volume e d blockdevice attach_to =
           (Inl (AlreadyAttachedVolume blockdevice),
            t @ [PathExists (device_path (svip d) (iqn vol)) 1,
                 Request ListISCSISessions (Some ''7.0'')])"
  using assms session_loop_same_text [of sessions blockdevice "[]"]
  by (simp add: attach_volume_def current_iscsi_sessions_def io_defs Let_def)

lemma attach_volume_no_targets:
  assumes "get_solidfire_volume e d blockdevice = (Inr (Some vol), t)"
    and "\<not> path_exists e (device_path (svip d) (iqn vol)) 1"
    and "current_iscsi_sessions e blockdevice = (Inr [], t')"
    and "iscsi_discovery e (svip d) = []"
  shows "attach_volume e d blockdevice attach_to =
           (Inl (Exception ''No targes found during discovery.''),
            t @ PathExists (device_path (svip d) (iqn vol)) 1 # t' @ [Discovery (svip d)])"
  using assms
  by (simp add: attach_volume_def io_defs Let_def)

section \<open>Access-group reconciliation\<close>

text \<open>
  C3: let the cluster list the access groups \<open>vags\<close>. If none carries the name,
  \<^verbatim>\<open>_initialize_vag\<close> issues one \<^verbatim>\<open>CreateVolumeAccessGroup\<close> seeded with all local
  initiators. If one does, the group \<open>g\<close> the lookup loop selects (the last one carrying
  the name, which is the only one when names are unique) receives exactly the local
  initiators it does not list yet, in one \<^verbatim>\<open>AddInitiatorsToVolumeAccessGroup\<close>, and no
  request at all when nothing is missing; the list the group then holds, its own followed
  by the added ones, is the union of both sets and has no duplicates when neither list
  had any. No request of the driver removes an initiator. When every local initiator is
  registered already, only the listing request is made.
\<close>

theorem initialize_vag_reconciles:
  assumes "issue_request e ListVolumeAccessGroups (Some ''7.0'') = Inr (VolumeAccessGroups vags)"
  shows "(filter (\<lambda>v. vag_name v = name) vags = [] \<longrightarrow>
            snd (initialize_vag e name iqns) =
              [Request ListVolumeAccessGroups (Some ''7.0''),
               Request (CreateVolumeAccessGroup name iqns) (Some ''7.0'')])
       \<and> (filter (\<lambda>v. vag_name v = name) vags \<noteq> [] \<longrightarrow>
            (let g = last (filter (\<lambda>v. vag_name v = name) vags);
                 missing = filter (\<lambda>i. i \<notin> set (initiators g)) iqns
             in snd (initialize_vag e name iqns) =
                  Request ListVolumeAccessGroups (Some ''7.0'') #
                  (if missing = [] then []
                   else [Request (AddInitiatorsToVolumeAccessGroup (volumeAccessGroupID g) missing)
                           (Some ''7.0'')])
              \<and> set missing = set iqns - set (initiators g)
              \<and> set (initiators g @ missing) = set (initiators g) \<union> set iqns
              \<and> (distinct (initiators g) \<and> distinct iqns \<longrightarrow> distinct (initiators g @ missing))
              \<and> (set iqns \<subseteq> set (initiators g) \<longrightarrow>
                   initialize_vag e name iqns =
                     (Inr (Some (volumeAccessGroupID g)),
                      [Request ListVolumeAccessGroups (Some ''7.0'')]))))"
proof (intro conjI impI)
  assume none: "filter (\<lambda>v. vag_name v = name) vags = []"
  show "snd (initialize_vag e name iqns) =
          [Request ListVolumeAccessGroups (Some ''7.0''),
           Request (CreateVolumeAccessGroup name iqns) (Some ''7.0'')]"
    using assms none
    by (simp add: initialize_vag_def io_defs vag_loop_last split: sum.splits prod.splits)
next
  assume some: "filter (\<lambda>v. vag_name v = name) vags \<noteq> []"
  define g where "g = last (filter (\<lambda>v. vag_name v = name) vags)"
  define missing where "missing = filter (\<lambda>i. i \<notin> set (initiators g)) iqns"
  have loop: "vag_loop name vags (None, None) = (Some g, Some (volumeAccessGroupID g))"
    using some by (simp add: vag_loop_last g_def)
  have tr: "snd (initialize_vag e name iqns) =
              Request ListVolumeAccessGroups (Some ''7.0'') #
              (if missing = [] then []
               else [Request (AddInitiatorsToVolumeAccessGroup (volumeAccessGroupID g) missing)
                       (Some ''7.0'')])"
    using assms loop
    by (simp add: initialize_vag_def io_defs missing_loop_filter missing_def Let_def
          Suc_le_eq split: sum.splits prod.splits)
  have s1: "set missing = set iqns - set (initiators g)"
    by (auto simp: missing_def)
  have s2: "set (initiators g @ missing) = set (initiators g) \<union> set iqns"
    by (auto simp: missing_def)
  have s3: "distinct (initiators g) \<and> distinct iqns \<longrightarrow> distinct (initiators g @ missing)"
    by (auto simp: missing_def)
  have s4: "set iqns \<subseteq> set (initiators g) \<longrightarrow>
              initialize_vag e name iqns =
                (Inr (Some (volumeAccessGroupID g)), [Request ListVolumeAccessGroups (Some ''7.0'')])"
  proof
    assume sub: "set iqns \<subseteq> set (initiators g)"
    then have "filter (\<lambda>i. i \<notin> set (initiators g)) iqns = []"
      by (auto simp: filter_empty_conv)
    then show "initialize_vag e name iqns =
                (Inr (Some (volumeAccessGroupID g)), [Request ListVolumeAccessGroups (Some ''7.0'')])"
      using assms loop
      by (simp add: initialize_vag_def io_defs missing_loop_filter Let_def)
  qed
  show "let g = last (filter (\<lambda>v. vag_name v = name) vags);
            missing = filter (\<lambda>i. i \<notin> set (initiators g)) iqns
        in snd (initialize_vag e name iqns) =
             Request ListVolumeAccessGroups (Some ''7.0'') #
             (if missing = [] then []
              else [Request (AddInitiatorsToVolumeAccessGroup (volumeAccessGroupID g) missing)
                      (Some ''7.0'')])
           \<and> set missing = set iqns - set (initiators g)
           \<and> set (initiators g @ missing) = set (initiators g) \<union> set iqns
           \<and> (distinct (initiators g) \<and> distinct iqns \<longrightarrow> distinct (initiators g @ missing))
           \<and> (set iqns \<subseteq> set (initiators g) \<longrightarrow>
                initialize_vag e name iqns =
                  (Inr (Some (volumeAccessGroupID g)),
                   [Request ListVolumeAccessGroups (Some ''7.0'')]))"
    using tr s1 s2 s3 s4 unfolding Let_def g_def [symmetric] missing_def [symmetric]
    by blast
qed

theorem initialize_vag_reconciles_witness:
  "snd (initialize_vag (sample_env (sample_cluster [] [] []) [] True) ''tenant1''
          [''iqn.1993-08.org.debian:a'', ''iqn.1993-08.org.debian:b'']) =
     [Request ListVolumeAccessGroups (Some ''7.0''),
      Request (CreateVolumeAccessGroup ''tenant1''
                 [''iqn.1993-08.org.debian:a'', ''iqn.1993-08.org.debian:b'']) (Some ''7.0'')]
   \<and> snd (initialize_vag
            (sample_env (sample_cluster [sample_group [''iqn.1993-08.org.debian:a'']] [] []) [] True)
            ''tenant1'' [''iqn.1993-08.org.debian:a'', ''iqn.1993-08.org.debian:b'']) =
     [Request ListVolumeAccessGroups (Some ''7.0''),
      Request (AddInitiatorsToVolumeAccessGroup (PInt 3) [''iqn.1993-08.org.debian:b''])
        (Some ''7.0'')]
   \<and> initialize_vag
        (sample_env (sample_cluster [sample_group [''iqn.1993-08.org.debian:a'']] [] []) [] True)
        ''tenant1'' [''iqn.1993-08.org.debian:a''] =
     (Inr (Some (PInt 3)), [Request ListVolumeAccessGroups (Some ''7.0'')])"
  using
    initialize_vag_reconciles [where e = "sample_env (sample_cluster [] [] []) [] True"
      and vags = "[]" and name = "''tenant1''"
      and iqns = "[''iqn.1993-08.org.debian:a'', ''iqn.1993-08.org.debian:b'']"]
    initialize_vag_reconciles [where
      e = "sample_env (sample_cluster [sample_group [''iqn.1993-08.org.debian:a'']] [] []) [] True"
      and vags = "[sample_group [''iqn.1993-08.org.debian:a'']]" and name = "''tenant1''"
      and iqns = "[''iqn.1993-08.org.debian:a'', ''iqn.1993-08.org.debian:b'']"]
    initialize_vag_reconciles [where
      e = "sample_env (sample_cluster [sample_group [''iqn.1993-08.org.debian:a'']] [] []) [] True"
      and vags = "[sample_group [''iqn.1993-08.org.debian:a'']]" and name = "''tenant1''"
      and iqns = "[''iqn.1993-08.org.debian:a'']"]
  by (simp add: sample_defs Let_def)

section \<open>Profiles and the create request\<close>



text \<open>
  C8: when the profile name resolves to a record holding the three QoS fields, the
  \<^verbatim>\<open>qos\<close> entry of the \<^verbatim>\<open>CreateVolume\<close> request has exactly the keys \<^verbatim>\<open>minIOPS\<close>,
  \<^verbatim>\<open>maxIOPS\<close> and \<^verbatim>\<open>burstIOPS\<close> with the record's values, whatever else the record
  holds; with the built-in registry the profile \<^verbatim>\<open>Gold\<close> gives 5000, 8000 and 15000.
\<close>

theorem create_forwards_three_qos_fields:
  "(map_of (profiles d) n = Some p \<and> map_of p ''minIOPS'' = Some a
      \<and> map_of p ''maxIOPS'' = Some b \<and> map_of p ''burstIOPS'' = Some c \<longrightarrow>
     (\<exists>rest. snd (create_volume_with_profile e d dataset size' (Some n)) =
        Request (CreateVolume
          \<lparr>cv_name = volume_prefix d @ dataset, cv_accountID = account_id d,
           cv_sliceCount = 1, cv_totalSize = size', cv_enable512e = True,
           cv_attributes = [],
           cv_qos = Some [(''minIOPS'', a), (''maxIOPS'', b), (''burstIOPS'', c)]\<rparr>) None # rest))
   \<and> (profiles d = set_profiles None \<longrightarrow>
     (\<exists>rest. snd (create_volume_with_profile e d dataset size' (Some ''Gold'')) =
        Request (CreateVolume
          \<lparr>cv_name = volume_prefix d @ dataset, cv_accountID = account_id d,
           cv_sliceCount = 1, cv_totalSize = size', cv_enable512e = True,
           cv_attributes = [],
           cv_qos = Some [(''minIOPS'', PInt 5000), (''maxIOPS'', PInt 8000),
                          (''burstIOPS'', PInt 15000)]\<rparr>) None # rest))"
proof -
  have gen: "\<And>n p a b c. map_of (profiles d) n = Some p \<Longrightarrow> map_of p ''minIOPS'' = Some a \<Longrightarrow>
      map_of p ''maxIOPS'' = Some b \<Longrightarrow> map_of p ''burstIOPS'' = Some c \<Longrightarrow>
     (\<exists>rest. snd (create_volume_with_profile e d dataset size' (Some n)) =
        Request (CreateVolume
          \<lparr>cv_name = volume_prefix d @ dataset, cv_accountID = account_id d,
           cv_sliceCount = 1, cv_totalSize = size', cv_enable512e = True,
           cv_attributes = [],
           cv_qos = Some [(''minIOPS'', a), (''maxIOPS'', b), (''burstIOPS'', c)]\<rparr>) None # rest)"
  proof -
    fix n p a b c
    assume h: "map_of (profiles d) n = Some p" "map_of p ''minIOPS'' = Some a"
      "map_of p ''maxIOPS'' = Some b" "map_of p ''burstIOPS'' = Some c"
    have ne: "p \<noteq> []" using h(2) by auto
    have pp: "process_profile d (Some n) = Some p"
      using h ne by (simp add: process_profile_def)
    show "\<exists>rest. snd (create_volume_with_profile e d dataset size' (Some n)) =
        Request (CreateVolume
          \<lparr>cv_name = volume_prefix d @ dataset, cv_accountID = account_id d,
           cv_sliceCount = 1, cv_totalSize = size', cv_enable512e = True,
           cv_attributes = [],
           cv_qos = Some [(''minIOPS'', a), (''maxIOPS'', b), (''burstIOPS'', c)]\<rparr>) None # rest"
      using h ne pp
      by (auto simp: create_volume_with_profile_def Let_def io_defs dict_item_def
            split: sum.splits prod.splits)
  qed
  have gold: "profiles d = set_profiles None \<Longrightarrow>
     map_of (profiles d) ''Gold'' =
       Some [(''minIOPS'', PInt 5000), (''maxIOPS'', PInt 8000), (''burstIOPS'', PInt 15000)]"
    by (simp add: set_profiles_def)
  show ?thesis
  proof (intro conjI impI)
    assume "map_of (profiles d) n = Some p \<and> map_of p ''minIOPS'' = Some a
      \<and> map_of p ''maxIOPS'' = Some b \<and> map_of p ''burstIOPS'' = Some c"
    then show "\<exists>rest. snd (create_volume_with_profile e d dataset size' (Some n)) =
        Request (CreateVolume
          \<lparr>cv_name = volume_prefix d @ dataset, cv_accountID = account_id d,
           cv_sliceCount = 1, cv_totalSize = size', cv_enable512e = True,
           cv_attributes = [],
           cv_qos = Some [(''minIOPS'', a), (''maxIOPS'', b), (''burstIOPS'', c)]\<rparr>) None # rest"
      using gen by blast
  next
    assume "profiles d = set_profiles None"
    then have g: "map_of (profiles d) ''Gold'' =
       Some [(''minIOPS'', PInt 5000), (''maxIOPS'', PInt 8000), (''burstIOPS'', PInt 15000)]"
      by (rule gold)
    show "\<exists>rest. snd (create_volume_with_profile e d dataset size' (Some ''Gold'')) =
        Request (CreateVolume
          \<lparr>cv_name = volume_prefix d @ dataset, cv_accountID = account_id d,
           cv_sliceCount = 1, cv_totalSize = size', cv_enable512e = True,
           cv_attributes = [],
           cv_qos = Some [(''minIOPS'', PInt 5000), (''maxIOPS'', PInt 8000),
                          (''burstIOPS'', PInt 15000)]\<rparr>) None # rest"
      by (rule gen [OF g]) simp_all
  qed
qed

theorem create_forwards_three_qos_fields_witness:
  "(\<exists>rest. snd (create_volume_with_profile (sample_env (sample_cluster [] [] []) [] True)
       (sample_driver ''flock-''
          [(''Fast'', [(''minIOPS'', PInt 100), (''colour'', PStr ''red''),
                       (''maxIOPS'', PInt 200), (''burstIOPS'', PInt 300)])])
       ''11111111-2222-3333-4444-555555555555'' 1073741824 (Some ''Fast'')) =
     Request (CreateVolume
       \<lparr>cv_name = ''flock-11111111-2222-3333-4444-555555555555'', cv_accountID = PInt 1,
        cv_sliceCount = 1, cv_totalSize = 1073741824, cv_enable512e = True,
        cv_attributes = [],
        cv_qos = Some [(''minIOPS'', PInt 100), (''maxIOPS'', PInt 200),
                       (''burstIOPS'', PInt 300)]\<rparr>) None # rest)
   \<and> (\<exists>rest. snd (create_volume_with_profile (sample_env (sample_cluster [] [] []) [] True)
       (sample_driver [] (set_profiles None))
       ''11111111-2222-3333-4444-555555555555'' 1073741824 (Some ''Gold'')) =
     Request (CreateVolume
       \<lparr>cv_name = ''11111111-2222-3333-4444-555555555555'', cv_accountID = PInt 1,
        cv_sliceCount = 1, cv_totalSize = 1073741824, cv_enable512e = True,
        cv_attributes = [],
        cv_qos = Some [(''minIOPS'', PInt 5000), (''maxIOPS'', PInt 8000),
                       (''burstIOPS'', PInt 15000)]\<rparr>) None # rest)"
proof -
  let ?e = "sample_env (sample_cluster [] [] []) [] True"
  let ?p = "[(''minIOPS'', PInt 100), (''colour'', PStr ''red''),
             (''maxIOPS'', PInt 200), (''burstIOPS'', PInt 300)]"
  let ?d1 = "sample_driver ''flock-'' [(''Fast'', ?p)]"
  let ?d2 = "sample_driver [] (set_profiles None)"
  have h1: "map_of (profiles ?d1) ''Fast'' = Some ?p \<and> map_of ?p ''minIOPS'' = Some (PInt 100)
      \<and> map_of ?p ''maxIOPS'' = Some (PInt 200) \<and> map_of ?p ''burstIOPS'' = Some (PInt 300)"
    by (simp add: sample_driver_def)
  have h2: "profiles ?d2 = set_profiles None"
    by (simp add: sample_driver_def)
  have f1: "volume_prefix ?d1 = ''flock-''" "account_id ?d1 = PInt 1"
    "volume_prefix ?d2 = []" "account_id ?d2 = PInt 1"
    by (simp_all add: sample_driver_def)
  note t1 = create_forwards_three_qos_fields [where d = ?d1 and n = "''Fast''" and p = ?p
      and a = "PInt 100" and b = "PInt 200" and c = "PInt 300" and e = ?e
      and dataset = "''11111111-2222-3333-4444-555555555555''" and size' = 1073741824,
      THEN conjunct1, THEN mp, OF h1]
  note t2 = create_forwards_three_qos_fields [where d = ?d2 and e = ?e
      and dataset = "''11111111-2222-3333-4444-555555555555''" and size' = 1073741824,
      THEN conjunct2, THEN mp, OF h2]
  show ?thesis
    using t1 t2 unfolding f1 by simp
qed

section \<open>Create, then list\<close>

text \<open>
  C2: the listing does not strip the configured prefix but the fixed text
  \<^verbatim>\<open>flock-\<close>. With the prefix \<^verbatim>\<open>vol-\<close> configured, \<^verbatim>\<open>create_volume\<close> succeeds and
  names the volume \<^verbatim>\<open>vol-<dataset>\<close>; \<^verbatim>\<open>list_volumes\<close> on a cluster holding that volume
  then raises \<^verbatim>\<open>ValueError\<close> at the UUID conversion of the whole name, so it returns no
  volume at all.
\<close>

theorem list_volumes_fails_on_configured_prefix:
  "create_volume (sample_env (sample_cluster [] [] []) [] True) (sample_driver ''vol-'' [])
     ''11111111-2222-3333-4444-555555555555'' 1073741824 =
     (Inr \<lparr>blockdevice_id = ''7'', size_bytes = 1073741824, attached_to = None,
            dataset_id = UUID 0x11111111222233334444555555555555\<rparr>,
      [Request (CreateVolume
         \<lparr>cv_name = ''vol-11111111-2222-3333-4444-555555555555'', cv_accountID = PInt 1,
          cv_sliceCount = 1, cv_totalSize = 1073741824, cv_enable512e = True,
          cv_attributes = [], cv_qos = None\<rparr>) None,
       Request (AddVolumesToVolumeAccessGroup (PInt 3) [7]) (Some ''7.0'')])
   \<and> list_volumes
       (sample_env
          (sample_cluster []
             [\<lparr>volumeID = PInt 7, vol_name = ''vol-11111111-2222-3333-4444-555555555555'',
               iqn = ''iqn.2010-01.com.solidfire:v.7'', totalSize = 1073741824\<rparr>] [])
          [] True)
       (sample_driver ''vol-'' []) =
     (Inl ValueError,
      [Request (ListVolumesForAccount (PInt 1)) (Some ''7.0''),
       PathExists
         ''/dev/disk/by-path/ip-10.0.0.1:3260-iscsi-iqn.2010-01.com.solidfire:v.7-lun-0'' 1])"
  by (simp add: create_volume_def create_volume_with_profile_def process_profile_def
        list_volumes_def device_path_def io_defs py_defs sample_defs nat_digits.simps)

section \<open>Destroy\<close>

text \<open>
  C6: for an identifier that converts to an integer, \<^verbatim>\<open>destroy_volume\<close> issues one
  \<^verbatim>\<open>DeleteVolume\<close>. If it fails with a message containing
  \<^verbatim>\<open>xVolumeIDDoesNotExist\<close> the driver raises \<^verbatim>\<open>UnknownVolume\<close>; any other request
  failure is raised again unchanged, with its code and message; if it succeeds the driver
  returns nothing.
\<close>

theorem destroy_volume_translates_failures:
  assumes "py_int (PStr blockdevice) = Inr vid"
  shows "(issue_request e (DeleteVolume vid) None = Inl ex \<longrightarrow>
            destroy_volume e d blockdevice =
              (if py_in ''xVolumeIDDoesNotExist'' (msg ex)
               then Inl (UnknownVolume blockdevice)
               else Inl (SolidFireRequestException ex),
               [Request (DeleteVolume vid) None]))
       \<and> (issue_request e (DeleteVolume vid) None = Inr r \<longrightarrow>
            destroy_volume e d blockdevice = (Inr (), [Request (DeleteVolume vid) None]))"
  using assms by (simp add: destroy_volume_def io_defs)

theorem destroy_volume_translates_failures_witness:
  "destroy_volume (sample_env (failing_cluster ''xVolumeIDDoesNotExist: 5'') [] True)
     (sample_driver [] []) ''5'' =
     (Inl (UnknownVolume ''5''), [Request (DeleteVolume 5) None])
   \<and> destroy_volume (sample_env (failing_cluster ''xExceededLimit'') [] True)
       (sample_driver [] []) ''5'' =
     (Inl (SolidFireRequestException \<lparr>code = PInt 500, msg = ''xExceededLimit''\<rparr>),
      [Request (DeleteVolume 5) None])
   \<and> destroy_volume (sample_env (sample_cluster [] [] []) [] True) (sample_driver [] []) ''5'' =
     (Inr (), [Request (DeleteVolume 5) None])"
proof -
  have parsed: "py_int (PStr ''5'') = Inr 5"
    by (simp add: py_defs)
  show ?thesis
    using
      destroy_volume_translates_failures [OF parsed,
        where e = "sample_env (failing_cluster ''xVolumeIDDoesNotExist: 5'') [] True"
        and ex = "\<lparr>code = PInt 500, msg = ''xVolumeIDDoesNotExist: 5''\<rparr>"
        and d = "sample_driver [] []"]
      destroy_volume_translates_failures [OF parsed,
        where e = "sample_env (failing_cluster ''xExceededLimit'') [] True"
        and ex = "\<lparr>code = PInt 500, msg = ''xExceededLimit''\<rparr>"
        and d = "sample_driver [] []"]
      destroy_volume_translates_failures [OF parsed,
        where e = "sample_env (sample_cluster [] [] []) [] True" and r = NoFields
        and d = "sample_driver [] []"]
    by (simp add: sample_defs)
qed

section \<open>Resize\<close>

text \<open>
  C5: when the lookup finds the volume, \<^verbatim>\<open>resize_volume\<close> fails with
  \<^verbatim>\<open>VolumeException\<close> exactly when the new size is not strictly greater than the
  current one (equal sizes included); on that branch the listing request of the lookup is
  the only call made, and otherwise the lookup is followed by one \<^verbatim>\<open>ModifyVolume\<close>
  carrying the new size.
\<close>

theorem resize_volume_only_grows:
  assumes "get_solidfire_volume e d blockdevice = (Inr (Some vol), t)"
  shows "(fst (resize_volume e d blockdevice size') = Inl (VolumeException blockdevice)
            \<longleftrightarrow> size' \<le> totalSize vol)
       \<and> (size' \<le> totalSize vol \<longrightarrow>
            resize_volume e d blockdevice size' = (Inl (VolumeException blockdevice), t)
            \<and> t = [Request (ListVolumesForAccount (account_id d)) (Some ''7.0'')])
       \<and> (totalSize vol < size' \<longrightarrow>
            snd (resize_volume e d blockdevice size') =
              t @ [Request (ModifyVolume (volumeID vol) size') (Some ''5.0'')])"
proof -
  have t: "t = [Request (ListVolumesForAccount (account_id d)) (Some ''7.0'')]"
    using assms
    by (auto simp: get_solidfire_volume_def io_defs split: sum.splits prod.splits)
  have fail: "size' \<le> totalSize vol \<Longrightarrow>
                resize_volume e d blockdevice size' = (Inl (VolumeException blockdevice), t)"
    using assms by (simp add: resize_volume_def io_defs)
  have grow: "totalSize vol < size' \<Longrightarrow>
                fst (resize_volume e d blockdevice size') \<noteq> Inl (VolumeException blockdevice)
                \<and> snd (resize_volume e d blockdevice size') =
                    t @ [Request (ModifyVolume (volumeID vol) size') (Some ''5.0'')]"
    using assms by (simp add: resize_volume_def io_defs split: sum.splits)
  show ?thesis
    using t fail grow by (cases "size' \<le> totalSize vol") auto
qed

theorem resize_volume_only_grows_witness:
  "resize_volume
     (sample_env (sample_cluster [] [sample_volume (PInt 5) ''11111111-2222-3333-4444-555555555555''] [])
        [] True)
     (sample_driver [] []) ''5'' 1073741824 =
     (Inl (VolumeException ''5''), [Request (ListVolumesForAccount (PInt 1)) (Some ''7.0'')])
   \<and> snd (resize_volume
        (sample_env (sample_cluster [] [sample_volume (PInt 5) ''11111111-2222-3333-4444-555555555555''] [])
           [] True)
        (sample_driver [] []) ''5'' 2147483648) =
     [Request (ListVolumesForAccount (PInt 1)) (Some ''7.0''),
      Request (ModifyVolume (PInt 5) 2147483648) (Some ''5.0'')]"
proof -
  let ?vol = "sample_volume (PInt 5) ''11111111-2222-3333-4444-555555555555''"
  let ?e = "sample_env (sample_cluster [] [?vol] []) [] True"
  let ?t = "[Request (ListVolumesForAccount (PInt 1)) (Some ''7.0'')]"
  have found: "get_solidfire_volume ?e (sample_driver [] []) ''5'' = (Inr (Some ?vol), ?t)"
    by (simp add: get_solidfire_volume_def io_defs py_defs sample_defs)
  have le: "1073741824 \<le> totalSize ?vol" and lt: "totalSize ?vol < 2147483648"
    by (simp_all add: sample_volume_def)
  have c1: "resize_volume ?e (sample_driver [] []) ''5'' 1073741824 =
              (Inl (VolumeException ''5''), ?t)"
    using resize_volume_only_grows [OF found, of 1073741824] le by blast
  have c2: "snd (resize_volume ?e (sample_driver [] []) ''5'' 2147483648) =
              ?t @ [Request (ModifyVolume (volumeID ?vol) 2147483648) (Some ''5.0'')]"
    using resize_volume_only_grows [OF found, of 2147483648] lt by blast
  have v: "volumeID ?vol = PInt 5"
    by (simp add: sample_volume_def)
  show ?thesis
    unfolding c1 c2 v by simp
qed

section \<open>Attach\<close>

text \<open>
  C1: the session guard compares the identifier text with the session's \<^verbatim>\<open>volumeID\<close>
  by \<^verbatim>\<open>==\<close>, without \<^verbatim>\<open>int()\<close>. For the volume 5, absent device path, and a session
  list holding a session whose \<^verbatim>\<open>volumeID\<close> is the number 5 (equal to the identifier
  \<^verbatim>\<open>'5'\<close> as integers), \<^verbatim>\<open>attach_volume\<close> does not raise \<^verbatim>\<open>AlreadyAttachedVolume\<close>: it
  runs discovery and login and returns the volume.
\<close>

theorem attach_volume_misses_numeric_session:
  "py_int (session_volumeID \<lparr>session_volumeID = PInt 5\<rparr>) = py_int (PStr ''5'')
   \<and> attach_volume
       (sample_env
          (sample_cluster [] [sample_volume (PInt 5) ''11111111-2222-3333-4444-555555555555'']
             [\<lparr>session_volumeID = PInt 5\<rparr>])
          [''iqn.2010-01.com.solidfire:v.5''] True)
       (sample_driver [] []) ''5'' ''192.0.2.10'' =
     (Inr \<lparr>blockdevice_id = ''5'', size_bytes = 1073741824, attached_to = Some ''192.0.2.10'',
            dataset_id = UUID 0x11111111222233334444555555555555\<rparr>,
      [Request (ListVolumesForAccount (PInt 1)) (Some ''7.0''),
       PathExists
         ''/dev/disk/by-path/ip-10.0.0.1:3260-iscsi-iqn.2010-01.com.solidfire:v.5-lun-0'' 1,
       Request ListISCSISessions (Some ''7.0''),
       Discovery ''10.0.0.1:3260'',
       Login ''10.0.0.1:3260'' ''iqn.2010-01.com.solidfire:v.5''])"
  by (simp add: attach_volume_def get_solidfire_volume_def current_iscsi_sessions_def
        device_path_def io_defs py_defs sample_defs)

text \<open>
  C4: the discovery check raises only when the target list is empty. With a non-empty
  list that does not hold the volume's target, \<^verbatim>\<open>attach_volume\<close> still attempts the
  login, and returns the volume when the login succeeds.
\<close>

theorem attach_volume_logs_in_to_undiscovered_target:
  "''iqn.2010-01.com.solidfire:v.5'' \<notin> set [''iqn.2010-01.com.solidfire:v.9'']
   \<and> attach_volume
       (sample_env
          (sample_cluster [] [sample_volume (PInt 5) ''11111111-2222-3333-4444-555555555555''] [])
          [''iqn.2010-01.com.solidfire:v.9''] True)
       (sample_driver [] []) ''5'' ''192.0.2.10'' =
     (Inr \<lparr>blockdevice_id = ''5'', size_bytes = 1073741824, attached_to = Some ''192.0.2.10'',
            dataset_id = UUID 0x11111111222233334444555555555555\<rparr>,
      [Request (ListVolumesForAccount (PInt 1)) (Some ''7.0''),
       PathExists
         ''/dev/disk/by-path/ip-10.0.0.1:3260-iscsi-iqn.2010-01.com.solidfire:v.5-lun-0'' 1,
       Request ListISCSISessions (Some ''7.0''),
       Discovery ''10.0.0.1:3260'',
       Login ''10.0.0.1:3260'' ''iqn.2010-01.com.solidfire:v.5''])"
  by (simp add: attach_volume_def get_solidfire_volume_def current_iscsi_sessions_def
        device_path_def io_defs py_defs sample_defs)

text \<open>
  C9: \<^verbatim>\<open>attach_volume\<close> reads the whole volume name as a UUID and strips no prefix.
  With the prefix \<^verbatim>\<open>flock-\<close> configured and the volume named \<^verbatim>\<open>flock-<dataset>\<close>, the
  login succeeds and the call then raises \<^verbatim>\<open>ValueError\<close> instead of returning a
  volume; \<^verbatim>\<open>list_volumes\<close> on the same cluster does recover the dataset UUID.
\<close>

theorem attach_volume_rejects_prefixed_name:
  "attach_volume
     (sample_env
        (sample_cluster []
           [sample_volume (PInt 5) ''flock-11111111-2222-3333-4444-555555555555''] [])
        [''iqn.2010-01.com.solidfire:v.5''] True)
     (sample_driver ''flock-'' []) ''5'' ''192.0.2.10'' =
     (Inl ValueError,
      [Request (ListVolumesForAccount (PInt 1)) (Some ''7.0''),
       PathExists
         ''/dev/disk/by-path/ip-10.0.0.1:3260-iscsi-iqn.2010-01.com.solidfire:v.5-lun-0'' 1,
       Request ListISCSISessions (Some ''7.0''),
       Discovery ''10.0.0.1:3260'',
       Login ''10.0.0.1:3260'' ''iqn.2010-01.com.solidfire:v.5''])
   \<and> list_volumes
       (sample_env
          (sample_cluster []
             [sample_volume (PInt 5) ''flock-11111111-2222-3333-4444-555555555555''] [])
          [''iqn.2010-01.com.solidfire:v.5''] True)
       (sample_driver ''flock-'' []) =
     (Inr [\<lparr>blockdevice_id = ''5'', size_bytes = 1073741824, attached_to = None,
            dataset_id = UUID 0x11111111222233334444555555555555\<rparr>],
      [Request (ListVolumesForAccount (PInt 1)) (Some ''7.0''),
       PathExists
         ''/dev/disk/by-path/ip-10.0.0.1:3260-iscsi-iqn.2010-01.com.solidfire:v.5-lun-0'' 1])"
  by (simp add: attach_volume_def list_volumes_def get_solidfire_volume_def
        current_iscsi_sessions_def device_path_def io_defs py_defs sample_defs nat_digits.simps)

section \<open>Identifiers that are not integers\<close>



end
